theory Spec2Isabelle
  imports Complex_Main
begin

section \<open>The Skyetrain article template: data model\<close>

text \<open>
  The repository holds two scripts, \<^verbatim>\<open>skyetrain_article_template.js\<close> (A4) and its mobile
  6x9 inch variant. Each builds the option tree of a docx document from a \<^verbatim>\<open>content\<close>
  object and module-level design tokens. The docx constructors (\<^verbatim>\<open>new Paragraph\<close>,
  \<^verbatim>\<open>new TextRun\<close>, ...) are modelled by the option objects they are given: a key the script
  does not write is \<open>None\<close>. JavaScript numbers that are integer literals are \<open>int\<close>.
\<close>

subsection \<open>Content\<close>

text \<open>
  A span is \<^verbatim>\<open>{ text, bold, italics }\<close>, the two flags optional. A section is
  \<^verbatim>\<open>{ heading, paragraphs, bullets, after, bullets2, after2 }\<close>; a key that is absent
  (\<^verbatim>\<open>undefined\<close>, falsy) is \<open>None\<close>, a present array (truthy, also when empty) is
  \<open>Some\<close>.
\<close>

record span =
  s_text :: string
  s_bold :: "bool option"
  s_italics :: "bool option"

record sec =
  heading :: string
  paragraphs :: "span list list option"
  bullets :: "string list option"
  after :: "span list list option"
  bullets2 :: "string list option"
  after2 :: "span list list option"

record content =
  title :: string
  subtitle :: string
  author :: string
  sections :: "sec list"

subsection \<open>Design tokens\<close>

record palette =
  PALETTE_text :: string
  PALETTE_subtitle :: string
  PALETTE_heading :: string
  PALETTE_accentBlue :: string
  PALETTE_accentRed :: string

record fonts =
  FONTS_body :: string
  FONTS_heading :: string

record sizes =
  SIZES_body :: int
  SIZES_heading :: int
  SIZES_title :: int
  SIZES_subtitle :: int
  SIZES_meta :: int

record spacing =
  SPACING_bodyAfter :: int
  SPACING_bodyLine :: int
  SPACING_bulletAfter :: int
  SPACING_sectionBefore :: int
  SPACING_sectionAfter :: int
  SPACING_titleBlockEnd :: int

text \<open>The module-level token constants a builder function reads.\<close>

record tokens =
  PALETTE :: palette
  FONTS :: fonts
  SIZES :: sizes
  SPACING :: spacing

subsection \<open>Option objects of the docx constructors\<close>

datatype AlignmentType = CENTER | RIGHT | LEFT

datatype BorderStyle = SINGLE

datatype LevelFormat = BULLET

type_synonym buffer = "nat list"

record textRunOpts =
  r_text :: string
  r_font :: "string option"
  r_size :: "int option"
  r_color :: "string option"
  r_bold :: "bool option"
  r_italics :: "bool option"
  r_characterSpacing :: "int option"

record transformation =
  t_width :: int
  t_height :: int

record imageRunOpts =
  i_data :: buffer
  i_transformation :: transformation
  i_type :: string

datatype run = TextRun textRunOpts | ImageRun imageRunOpts

record spacingOpts =
  sp_before :: "int option"
  sp_after :: "int option"
  sp_line :: "int option"

record borderSide =
  b_style :: BorderStyle
  b_size :: int
  b_color :: string
  b_space :: int

record borderOpts =
  bd_top :: "borderSide option"
  bd_bottom :: "borderSide option"
  bd_left :: "borderSide option"

record indentOpts =
  in_left :: "int option"
  in_hanging :: "int option"

record numberingRef =
  n_reference :: string
  n_level :: int

record paragraphOpts =
  p_alignment :: "AlignmentType option"
  p_spacing :: "spacingOpts option"
  p_widowControl :: "bool option"
  p_keepNext :: "bool option"
  p_keepLines :: "bool option"
  p_border :: "borderOpts option"
  p_indent :: "indentOpts option"
  p_numbering :: "numberingRef option"
  p_children :: "run list"

text \<open>An options object with no key but \<^verbatim>\<open>children\<close> (respectively \<^verbatim>\<open>text\<close>) written.\<close>

definition Paragraph :: "run list \<Rightarrow> paragraphOpts" where
  "Paragraph cs = \<lparr>p_alignment = None, p_spacing = None, p_widowControl = None,
     p_keepNext = None, p_keepLines = None, p_border = None, p_indent = None,
     p_numbering = None, p_children = cs\<rparr>"

definition textRun :: "string \<Rightarrow> textRunOpts" where
  "textRun t = \<lparr>r_text = t, r_font = None, r_size = None, r_color = None, r_bold = None,
     r_italics = None, r_characterSpacing = None\<rparr>"

definition noSpacing :: spacingOpts where
  "noSpacing = \<lparr>sp_before = None, sp_after = None, sp_line = None\<rparr>"

definition noBorder :: borderOpts where
  "noBorder = \<lparr>bd_top = None, bd_bottom = None, bd_left = None\<rparr>"

section \<open>Template engine\<close>

text \<open>
  JavaScript truthiness of an optional boolean: \<^verbatim>\<open>s.bold ? a : b\<close> takes \<open>a\<close> only for
  \<^verbatim>\<open>true\<close>, and \<^verbatim>\<open>s.bold || false\<close> is \<^verbatim>\<open>true\<close> only for \<^verbatim>\<open>true\<close>.
\<close>

definition truthy :: "bool option \<Rightarrow> bool" where
  "truthy b = (case b of None \<Rightarrow> False | Some v \<Rightarrow> v)"

text \<open>\<^verbatim>\<open>function makeRuns(spans)\<close>: one text run per span.\<close>

definition makeRun :: "tokens \<Rightarrow> span \<Rightarrow> run" where
  "makeRun T s = TextRun ((textRun (s_text s))\<lparr>
     r_font := Some (if truthy (s_bold s) then FONTS_heading (FONTS T) else FONTS_body (FONTS T)),
     r_size := Some (SIZES_body (SIZES T)),
     r_color := Some (PALETTE_text (PALETTE T)),
     r_bold := Some (truthy (s_bold s)),
     r_italics := Some (truthy (s_italics s))\<rparr>)"

definition makeRuns :: "tokens \<Rightarrow> span list \<Rightarrow> run list" where
  "makeRuns T spans = map (makeRun T) spans"

text \<open>\<^verbatim>\<open>function bodyP(spans)\<close>\<close>

definition bodyP :: "tokens \<Rightarrow> span list \<Rightarrow> paragraphOpts" where
  "bodyP T spans = (Paragraph (makeRuns T spans))\<lparr>
     p_spacing := Some (noSpacing\<lparr>sp_after := Some (SPACING_bodyAfter (SPACING T)),
                                 sp_line := Some (SPACING_bodyLine (SPACING T))\<rparr>),
     p_widowControl := Some True\<rparr>"

text \<open>\<^verbatim>\<open>function bulletP(text)\<close>\<close>

definition bulletP :: "tokens \<Rightarrow> string \<Rightarrow> paragraphOpts" where
  "bulletP T txt = (Paragraph [TextRun ((textRun txt)\<lparr>
        r_font := Some (FONTS_body (FONTS T)),
        r_size := Some (SIZES_body (SIZES T)),
        r_color := Some (PALETTE_text (PALETTE T))\<rparr>)])\<lparr>
     p_numbering := Some \<lparr>n_reference = ''mainBullets'', n_level = 0\<rparr>,
     p_spacing := Some (noSpacing\<lparr>sp_after := Some (SPACING_bulletAfter (SPACING T)),
                                 sp_line := Some (SPACING_bodyLine (SPACING T))\<rparr>)\<rparr>"

text \<open>\<^verbatim>\<open>function sectionHeading(text)\<close>\<close>

definition sectionHeading :: "tokens \<Rightarrow> string \<Rightarrow> paragraphOpts" where
  "sectionHeading T txt = (Paragraph [TextRun ((textRun txt)\<lparr>
        r_font := Some (FONTS_heading (FONTS T)),
        r_size := Some (SIZES_heading (SIZES T)),
        r_bold := Some True,
        r_color := Some (PALETTE_heading (PALETTE T))\<rparr>)])\<lparr>
     p_spacing := Some (noSpacing\<lparr>sp_before := Some (SPACING_sectionBefore (SPACING T)),
                                 sp_after := Some (SPACING_sectionAfter (SPACING T))\<rparr>),
     p_keepNext := Some True,
     p_keepLines := Some True,
     p_border := Some (noBorder\<lparr>bd_left := Some \<lparr>b_style = SINGLE, b_size = 14,
        b_color = PALETTE_accentBlue (PALETTE T), b_space = 10\<rparr>\<rparr>),
     p_indent := Some \<lparr>in_left = Some 240, in_hanging = None\<rparr>\<rparr>"

text \<open>\<^verbatim>\<open>function spacer(after = 100)\<close>: the default applies when no argument is passed.\<close>

definition spacer :: "int option \<Rightarrow> paragraphOpts" where
  "spacer arg = (let aft = (case arg of None \<Rightarrow> 100 | Some a \<Rightarrow> a) in
     (Paragraph [])\<lparr>p_spacing := Some (noSpacing\<lparr>sp_after := Some aft\<rparr>)\<rparr>)"

text \<open>
  \<^verbatim>\<open>parts.push(x)\<close> appends to the array; \<^verbatim>\<open>xs.forEach(x => parts.push(f(x)))\<close> does so
  for each element in order, the array being the state that is threaded through.
\<close>

definition push :: "'a list \<Rightarrow> 'a \<Rightarrow> 'a list" where
  "push parts x = parts @ [x]"

definition forEach_push :: "('a \<Rightarrow> 'b) \<Rightarrow> 'a list \<Rightarrow> 'b list \<Rightarrow> 'b list" where
  "forEach_push f xs parts = fold (\<lambda>x acc. push acc (f x)) xs parts"

text \<open>\<^verbatim>\<open>function buildSection(sec)\<close>, statement by statement.\<close>

definition buildSection :: "tokens \<Rightarrow> sec \<Rightarrow> paragraphOpts list" where
  "buildSection T s =
    (let parts = [];
         parts = push parts (sectionHeading T (heading s));
         parts = (case paragraphs s of None \<Rightarrow> parts
                  | Some ps \<Rightarrow> forEach_push (bodyP T) ps parts);
         parts = (case bullets s of None \<Rightarrow> parts
                  | Some bs \<Rightarrow> forEach_push (bulletP T) bs parts);
         parts = (case after s of None \<Rightarrow> parts
                  | Some ps \<Rightarrow> forEach_push (bodyP T) ps (push parts (spacer (Some 60))));
         parts = (case bullets2 s of None \<Rightarrow> parts
                  | Some bs \<Rightarrow> forEach_push (bulletP T) bs parts);
         parts = (case after2 s of None \<Rightarrow> parts
                  | Some ps \<Rightarrow> forEach_push (bodyP T) ps (push parts (spacer (Some 60))))
     in parts)"

section \<open>The A4 script\<close>

text \<open>Constants of \<^verbatim>\<open>skyetrain_article_template.js\<close>.\<close>

definition LOGO_PATH :: string where
  "LOGO_PATH = ''./SKYETRAIN_MERCH_-_SKYETRAIN_LOGO.png''"

definition PALETTE_A4 :: palette where
  "PALETTE_A4 = \<lparr>PALETTE_text = ''3A3A3A'', PALETTE_subtitle = ''777777'',
     PALETTE_heading = ''2A2A2A'', PALETTE_accentBlue = ''3D4DB7'',
     PALETTE_accentRed = ''C65D4A''\<rparr>"

definition FONTS_A4 :: fonts where
  "FONTS_A4 = \<lparr>FONTS_body = ''Georgia'', FONTS_heading = ''Arial''\<rparr>"

definition SIZES_A4 :: sizes where
  "SIZES_A4 = \<lparr>SIZES_body = 22, SIZES_heading = 26, SIZES_title = 38, SIZES_subtitle = 20,
     SIZES_meta = 16\<rparr>"

definition SPACING_A4 :: spacing where
  "SPACING_A4 = \<lparr>SPACING_bodyAfter = 180, SPACING_bodyLine = 336, SPACING_bulletAfter = 80,
     SPACING_sectionBefore = 600, SPACING_sectionAfter = 180, SPACING_titleBlockEnd = 480\<rparr>"

definition tokens_A4 :: tokens where
  "tokens_A4 = \<lparr>PALETTE = PALETTE_A4, FONTS = FONTS_A4, SIZES = SIZES_A4, SPACING = SPACING_A4\<rparr>"

text \<open>
  \<^verbatim>\<open>Math.round\<close> rounds to the nearest integer, a half up. The products below are exact
  reals here and IEEE doubles in the script; \<open>Math_round_stable\<close> below shows that the
  difference cannot change the result.
\<close>

definition Math_round :: "real \<Rightarrow> int" where
  "Math_round x = \<lfloor>x + 1 / 2\<rfloor>"

definition LOGO_ASPECT_A4 :: real where
  "LOGO_ASPECT_A4 = 466 / 2000"

definition LOGO_DISPLAY_W_A4 :: int where
  "LOGO_DISPLAY_W_A4 = 180"

definition LOGO_DISPLAY_H_A4 :: int where
  "LOGO_DISPLAY_H_A4 = Math_round (of_int LOGO_DISPLAY_W_A4 * LOGO_ASPECT_A4)"

text \<open>The five literal paragraphs of \<^verbatim>\<open>const children = [...]\<close>, named by their comments.\<close>

definition logoP_A4 :: "buffer \<Rightarrow> paragraphOpts" where
  "logoP_A4 logoData = (Paragraph [ImageRun \<lparr>i_data = logoData,
        i_transformation = \<lparr>t_width = LOGO_DISPLAY_W_A4, t_height = LOGO_DISPLAY_H_A4\<rparr>,
        i_type = ''png''\<rparr>])\<lparr>
     p_alignment := Some CENTER,
     p_spacing := Some (noSpacing\<lparr>sp_before := Some 200, sp_after := Some 360\<rparr>)\<rparr>"

definition titleP_A4 :: "content \<Rightarrow> paragraphOpts" where
  "titleP_A4 c = (Paragraph [TextRun ((textRun (title c))\<lparr>
        r_font := Some (FONTS_heading FONTS_A4),
        r_size := Some (SIZES_title SIZES_A4),
        r_bold := Some True,
        r_color := Some (PALETTE_heading PALETTE_A4),
        r_characterSpacing := Some 80\<rparr>)])\<lparr>
     p_spacing := Some (noSpacing\<lparr>sp_before := Some 60, sp_after := Some 240\<rparr>),
     p_alignment := Some CENTER\<rparr>"

definition subtitleP_A4 :: "content \<Rightarrow> paragraphOpts" where
  "subtitleP_A4 c = (Paragraph [TextRun ((textRun (subtitle c))\<lparr>
        r_font := Some (FONTS_body FONTS_A4),
        r_size := Some (SIZES_subtitle SIZES_A4),
        r_italics := Some True,
        r_color := Some (PALETTE_subtitle PALETTE_A4)\<rparr>)])\<lparr>
     p_spacing := Some (noSpacing\<lparr>sp_after := Some 160\<rparr>),
     p_alignment := Some CENTER\<rparr>"

definition ruleP_A4 :: paragraphOpts where
  "ruleP_A4 = (Paragraph [])\<lparr>
     p_spacing := Some (noSpacing\<lparr>sp_after := Some 100\<rparr>),
     p_border := Some (noBorder\<lparr>bd_bottom := Some \<lparr>b_style = SINGLE, b_size = 6,
        b_color = PALETTE_accentRed PALETTE_A4, b_space = 1\<rparr>\<rparr>)\<rparr>"

definition authorP_A4 :: "content \<Rightarrow> paragraphOpts" where
  "authorP_A4 c = (Paragraph [TextRun ((textRun (''by '' @ author c))\<lparr>
        r_font := Some (FONTS_body FONTS_A4),
        r_size := Some (SIZES_subtitle SIZES_A4),
        r_color := Some (PALETTE_subtitle PALETTE_A4)\<rparr>)])\<lparr>
     p_spacing := Some (noSpacing\<lparr>sp_after := Some (SPACING_titleBlockEnd SPACING_A4)\<rparr>),
     p_alignment := Some RIGHT\<rparr>"

definition titleBlock_A4 :: "buffer \<Rightarrow> content \<Rightarrow> paragraphOpts list" where
  "titleBlock_A4 logoData c =
     [logoP_A4 logoData, titleP_A4 c, subtitleP_A4 c, ruleP_A4, authorP_A4 c]"

section \<open>The mobile (6x9 inch) script\<close>

text \<open>Constants of the second script, \<^verbatim>\<open>src/unnamed/part_000\<close>.\<close>

definition PALETTE_Mobile :: palette where
  "PALETTE_Mobile = \<lparr>PALETTE_text = ''3A3A3A'', PALETTE_subtitle = ''777777'',
     PALETTE_heading = ''2A2A2A'', PALETTE_accentBlue = ''3D4DB7'',
     PALETTE_accentRed = ''C65D4A''\<rparr>"

definition FONTS_Mobile :: fonts where
  "FONTS_Mobile = \<lparr>FONTS_body = ''Georgia'', FONTS_heading = ''Arial''\<rparr>"

definition SIZES_Mobile :: sizes where
  "SIZES_Mobile = \<lparr>SIZES_body = 22, SIZES_heading = 26, SIZES_title = 38, SIZES_subtitle = 20,
     SIZES_meta = 16\<rparr>"

record page =
  PAGE_width :: int
  PAGE_height :: int
  PAGE_marginSide :: int
  PAGE_marginTB :: int

definition PAGE_Mobile :: page where
  "PAGE_Mobile = \<lparr>PAGE_width = 8640, PAGE_height = 12960, PAGE_marginSide = 1080,
     PAGE_marginTB = 1080\<rparr>"

definition SPACING_Mobile :: spacing where
  "SPACING_Mobile = \<lparr>SPACING_bodyAfter = 180, SPACING_bodyLine = 336, SPACING_bulletAfter = 80,
     SPACING_sectionBefore = 600, SPACING_sectionAfter = 180, SPACING_titleBlockEnd = 400\<rparr>"

definition tokens_Mobile :: tokens where
  "tokens_Mobile = \<lparr>PALETTE = PALETTE_Mobile, FONTS = FONTS_Mobile, SIZES = SIZES_Mobile,
     SPACING = SPACING_Mobile\<rparr>"

definition LOGO_ASPECT_Mobile :: real where
  "LOGO_ASPECT_Mobile = 466 / 2000"

definition LOGO_DISPLAY_W_Mobile :: int where
  "LOGO_DISPLAY_W_Mobile = 150"

definition LOGO_DISPLAY_H_Mobile :: int where
  "LOGO_DISPLAY_H_Mobile = Math_round (of_int LOGO_DISPLAY_W_Mobile * LOGO_ASPECT_Mobile)"

definition logoP_Mobile :: "buffer \<Rightarrow> paragraphOpts" where
  "logoP_Mobile logoData = (Paragraph [ImageRun \<lparr>i_data = logoData,
        i_transformation = \<lparr>t_width = LOGO_DISPLAY_W_Mobile, t_height = LOGO_DISPLAY_H_Mobile\<rparr>,
        i_type = ''png''\<rparr>])\<lparr>
     p_alignment := Some CENTER,
     p_spacing := Some (noSpacing\<lparr>sp_before := Some 120, sp_after := Some 300\<rparr>)\<rparr>"

definition titleP_Mobile :: "content \<Rightarrow> paragraphOpts" where
  "titleP_Mobile c = (Paragraph [TextRun ((textRun (title c))\<lparr>
        r_font := Some (FONTS_heading FONTS_Mobile),
        r_size := Some (SIZES_title SIZES_Mobile),
        r_bold := Some True,
        r_color := Some (PALETTE_heading PALETTE_Mobile),
        r_characterSpacing := Some 80\<rparr>)])\<lparr>
     p_spacing := Some (noSpacing\<lparr>sp_before := Some 60, sp_after := Some 200\<rparr>),
     p_alignment := Some CENTER\<rparr>"

definition subtitleP_Mobile :: "content \<Rightarrow> paragraphOpts" where
  "subtitleP_Mobile c = (Paragraph [TextRun ((textRun (subtitle c))\<lparr>
        r_font := Some (FONTS_body FONTS_Mobile),
        r_size := Some (SIZES_subtitle SIZES_Mobile),
        r_italics := Some True,
        r_color := Some (PALETTE_subtitle PALETTE_Mobile)\<rparr>)])\<lparr>
     p_spacing := Some (noSpacing\<lparr>sp_after := Some 140\<rparr>),
     p_alignment := Some CENTER\<rparr>"

definition ruleP_Mobile :: paragraphOpts where
  "ruleP_Mobile = (Paragraph [])\<lparr>
     p_spacing := Some (noSpacing\<lparr>sp_after := Some 80\<rparr>),
     p_border := Some (noBorder\<lparr>bd_bottom := Some \<lparr>b_style = SINGLE, b_size = 6,
        b_color = PALETTE_accentRed PALETTE_Mobile, b_space = 1\<rparr>\<rparr>)\<rparr>"

definition authorP_Mobile :: "content \<Rightarrow> paragraphOpts" where
  "authorP_Mobile c = (Paragraph [TextRun ((textRun (''by '' @ author c))\<lparr>
        r_font := Some (FONTS_body FONTS_Mobile),
        r_size := Some (SIZES_subtitle SIZES_Mobile),
        r_color := Some (PALETTE_subtitle PALETTE_Mobile)\<rparr>)])\<lparr>
     p_spacing := Some (noSpacing\<lparr>sp_after := Some (SPACING_titleBlockEnd SPACING_Mobile)\<rparr>),
     p_alignment := Some RIGHT\<rparr>"

definition titleBlock_Mobile :: "buffer \<Rightarrow> content \<Rightarrow> paragraphOpts list" where
  "titleBlock_Mobile logoData c =
     [logoP_Mobile logoData, titleP_Mobile c, subtitleP_Mobile c, ruleP_Mobile,
      authorP_Mobile c]"

section \<open>Document wrapper and script\<close>

record levelOpts =
  l_level :: int
  l_format :: LevelFormat
  l_text :: string
  l_alignment :: AlignmentType
  l_indent :: indentOpts

record numberingConfig =
  nc_reference :: string
  nc_levels :: "levelOpts list"

record runStyle =
  rs_font :: string
  rs_size :: int

record pageSize =
  pg_width :: int
  pg_height :: int

record pageMargin =
  m_top :: int
  m_right :: int
  m_bottom :: int
  m_left :: int

record sectionOpts =
  so_size :: pageSize
  so_margin :: pageMargin
  so_header :: "paragraphOpts list"
  so_footer :: "paragraphOpts list"
  so_children :: "paragraphOpts list"

record document =
  d_numbering :: "numberingConfig list"
  d_styles :: runStyle
  d_sections :: "sectionOpts list"

text \<open>The bullet character U+2022, as its UTF-8 bytes.\<close>

definition bulletChar :: string where
  "bulletChar = [CHR 0xE2, CHR 0x80, CHR 0xA2]"

text \<open>The parts of \<^verbatim>\<open>new Document({...})\<close> that both scripts write alike.\<close>

definition numberingCfg :: "numberingConfig list" where
  "numberingCfg = [\<lparr>nc_reference = ''mainBullets'',
     nc_levels = [\<lparr>l_level = 0, l_format = BULLET, l_text = bulletChar, l_alignment = LEFT,
       l_indent = \<lparr>in_left = Some 720, in_hanging = Some 360\<rparr>\<rparr>]\<rparr>]"

definition defaultStyle :: "tokens \<Rightarrow> runStyle" where
  "defaultStyle T = \<lparr>rs_font = FONTS_body (FONTS T), rs_size = SIZES_body (SIZES T)\<rparr>"

definition headerRun :: "tokens \<Rightarrow> textRunOpts" where
  "headerRun T = (textRun ''SKYETRAIN'')\<lparr>
     r_font := Some (FONTS_heading (FONTS T)),
     r_size := Some (SIZES_meta (SIZES T)),
     r_color := Some ''CCCCCC'',
     r_characterSpacing := Some 60\<rparr>"

definition headerP :: "tokens \<Rightarrow> paragraphOpts" where
  "headerP T = (Paragraph [TextRun (headerRun T)])\<lparr>
     p_alignment := Some RIGHT,
     p_spacing := Some (noSpacing\<lparr>sp_after := Some 80\<rparr>),
     p_border := Some (noBorder\<lparr>bd_bottom := Some \<lparr>b_style = SINGLE, b_size = 6,
        b_color = PALETTE_accentBlue (PALETTE T), b_space = 6\<rparr>\<rparr>)\<rparr>"

definition footerRun :: "tokens \<Rightarrow> textRunOpts" where
  "footerRun T = (textRun ''skyetrain.com'')\<lparr>
     r_font := Some (FONTS_body (FONTS T)),
     r_size := Some (SIZES_meta (SIZES T)),
     r_italics := Some True,
     r_color := Some ''CCCCCC''\<rparr>"

definition footerP :: "tokens \<Rightarrow> paragraphOpts" where
  "footerP T = (Paragraph [TextRun (footerRun T)])\<lparr>
     p_alignment := Some CENTER,
     p_border := Some (noBorder\<lparr>bd_top := Some \<lparr>b_style = SINGLE, b_size = 6,
        b_color = PALETTE_accentBlue (PALETTE T), b_space = 6\<rparr>\<rparr>)\<rparr>"

definition Document_A4 :: "paragraphOpts list \<Rightarrow> document" where
  "Document_A4 children = \<lparr>d_numbering = numberingCfg, d_styles = defaultStyle tokens_A4,
     d_sections = [\<lparr>
       so_size = \<lparr>pg_width = 11906, pg_height = 16838\<rparr>,
       so_margin = \<lparr>m_top = 1440, m_right = 1600, m_bottom = 1440, m_left = 1600\<rparr>,
       so_header = [headerP tokens_A4],
       so_footer = [footerP tokens_A4],
       so_children = children\<rparr>]\<rparr>"

definition Document_Mobile :: "paragraphOpts list \<Rightarrow> document" where
  "Document_Mobile children = \<lparr>d_numbering = numberingCfg,
     d_styles = defaultStyle tokens_Mobile,
     d_sections = [\<lparr>
       so_size = \<lparr>pg_width = PAGE_width PAGE_Mobile, pg_height = PAGE_height PAGE_Mobile\<rparr>,
       so_margin = \<lparr>m_top = PAGE_marginTB PAGE_Mobile, m_right = PAGE_marginSide PAGE_Mobile,
         m_bottom = PAGE_marginTB PAGE_Mobile, m_left = PAGE_marginSide PAGE_Mobile\<rparr>,
       so_header = [headerP tokens_Mobile],
       so_footer = [footerP tokens_Mobile],
       so_children = children\<rparr>]\<rparr>"

subsection \<open>The top-level statements\<close>

text \<open>
  \<^verbatim>\<open>fs.readFileSync\<close> returns the file's bytes or throws. The file system is a partial map
  from paths to contents.
\<close>

datatype error = ENOENT string

type_synonym filesystem = "string \<Rightarrow> buffer option"

definition readFileSync :: "filesystem \<Rightarrow> string \<Rightarrow> error + buffer" where
  "readFileSync fs path = (case fs path of None \<Rightarrow> Inl (ENOENT path) | Some d \<Rightarrow> Inr d)"

text \<open>
  The module-level bindings the template engine initialises, in the order of the script:
  \<^verbatim>\<open>logoData\<close>, \<^verbatim>\<open>children\<close>, \<^verbatim>\<open>doc\<close>. \<open>None\<close> is a binding not yet initialised.
\<close>

record pstate =
  logoData :: "buffer option"
  children :: "paragraphOpts list option"
  doc :: "document option"

definition initial :: pstate where
  "initial = \<lparr>logoData = None, children = None, doc = None\<rparr>"

text \<open>
  \<^verbatim>\<open>content.sections.forEach(sec => children.push(...buildSection(sec)))\<close>: the blocks of
  each section are appended to the array.
\<close>

definition pushSections :: "tokens \<Rightarrow> sec list \<Rightarrow> paragraphOpts list \<Rightarrow> paragraphOpts list" where
  "pushSections T secs ch = fold (\<lambda>s acc. acc @ buildSection T s) secs ch"

text \<open>
  The script from \<^verbatim>\<open>const logoData = fs.readFileSync(LOGO_PATH)\<close> to
  \<^verbatim>\<open>const doc = new Document(...)\<close>, run on a state of the bindings. It returns the state
  it ends in and the exception that ended it, if any. Serialising the document and writing
  the file are external and not modelled.
\<close>

definition script_A4 :: "filesystem \<Rightarrow> content \<Rightarrow> pstate \<Rightarrow> pstate \<times> error option" where
  "script_A4 fs c s =
    (case readFileSync fs LOGO_PATH of
       Inl e \<Rightarrow> (s, Some e)
     | Inr d \<Rightarrow>
        (let s = s\<lparr>logoData := Some d\<rparr>;
             ch = titleBlock_A4 d c;
             s = s\<lparr>children := Some ch\<rparr>;
             ch = pushSections tokens_A4 (sections c) ch;
             s = s\<lparr>children := Some ch\<rparr>;
             s = s\<lparr>doc := Some (Document_A4 ch)\<rparr>
         in (s, None)))"

definition script_Mobile :: "filesystem \<Rightarrow> content \<Rightarrow> pstate \<Rightarrow> pstate \<times> error option" where
  "script_Mobile fs c s =
    (case readFileSync fs LOGO_PATH of
       Inl e \<Rightarrow> (s, Some e)
     | Inr d \<Rightarrow>
        (let s = s\<lparr>logoData := Some d\<rparr>;
             ch = titleBlock_Mobile d c;
             s = s\<lparr>children := Some ch\<rparr>;
             ch = pushSections tokens_Mobile (sections c) ch;
             s = s\<lparr>children := Some ch\<rparr>;
             s = s\<lparr>doc := Some (Document_Mobile ch)\<rparr>
         in (s, None)))"

text \<open>What a run rendered: the block sequence and the document, if the run completed.\<close>

definition rendered :: "pstate \<times> error option \<Rightarrow> paragraphOpts list option" where
  "rendered out = (case snd out of Some e \<Rightarrow> None | None \<Rightarrow> children (fst out))"

definition renderedDoc :: "pstate \<times> error option \<Rightarrow> document option" where
  "renderedDoc out = (case snd out of Some e \<Rightarrow> None | None \<Rightarrow> doc (fst out))"

section \<open>Specification-side definitions\<close>

text \<open>
  The declared order of a section's blocks, written from the specification: heading, then
  paragraphs, bullets, spacer and after-paragraphs, second bullets, spacer and second
  after-paragraphs. An absent field contributes nothing.
\<close>

definition optBlocks :: "('a \<Rightarrow> 'b) \<Rightarrow> 'a list option \<Rightarrow> 'b list" where
  "optBlocks f xs = (case xs of None \<Rightarrow> [] | Some ys \<Rightarrow> map f ys)"

definition afterBlocks :: "tokens \<Rightarrow> span list list option \<Rightarrow> paragraphOpts list" where
  "afterBlocks T a = (case a of None \<Rightarrow> [] | Some ps \<Rightarrow> spacer (Some 60) # map (bodyP T) ps)"

definition spec_sectionBlocks :: "tokens \<Rightarrow> sec \<Rightarrow> paragraphOpts list" where
  "spec_sectionBlocks T s = sectionHeading T (heading s) #
     optBlocks (bodyP T) (paragraphs s) @ optBlocks (bulletP T) (bullets s) @
     afterBlocks T (after s) @ optBlocks (bulletP T) (bullets2 s) @ afterBlocks T (after2 s)"

text \<open>
  A heading block is one that is kept with the next block; a spacer block is the empty
  paragraph \<^verbatim>\<open>spacer(60)\<close> that \<^verbatim>\<open>buildSection\<close> pushes.
\<close>

definition isHeading :: "paragraphOpts \<Rightarrow> bool" where
  "isHeading p = (p_keepNext p = Some True)"

definition isSpacer :: "paragraphOpts \<Rightarrow> bool" where
  "isSpacer p = (p = spacer (Some 60))"

text \<open>The text runs of a paragraph, and of the parts of a document.\<close>

fun textRunsOf :: "run list \<Rightarrow> textRunOpts list" where
  "textRunsOf [] = []"
| "textRunsOf (TextRun r # rs) = r # textRunsOf rs"
| "textRunsOf (ImageRun i # rs) = textRunsOf rs"

definition paragraphRuns :: "paragraphOpts list \<Rightarrow> textRunOpts list" where
  "paragraphRuns ps = concat (map (\<lambda>p. textRunsOf (p_children p)) ps)"

definition headerRuns :: "document \<Rightarrow> textRunOpts list" where
  "headerRuns d = concat (map (\<lambda>s. paragraphRuns (so_header s)) (d_sections d))"

definition contentRuns :: "document \<Rightarrow> textRunOpts list" where
  "contentRuns d = concat (map (\<lambda>s. paragraphRuns (so_children s @ so_footer s)) (d_sections d))"

definition documentRuns :: "document \<Rightarrow> textRunOpts list" where
  "documentRuns d = headerRuns d @ contentRuns d"

text \<open>
  The font rule of the specification for one run: heading font exactly when bold, and
  body font when not bold.
\<close>

definition fontFollowsBold :: "tokens \<Rightarrow> textRunOpts \<Rightarrow> bool" where
  "fontFollowsBold T r =
     ((r_font r = Some (FONTS_heading (FONTS T))) = (r_bold r = Some True) \<and>
      (r_bold r = Some True \<or> r_font r = Some (FONTS_body (FONTS T))))"

text \<open>
  Disregarding the page geometry of a document: page size, margins and the display size
  of the logo image. Disregarding as well the spacing of the five title-block paragraphs.
\<close>

fun eraseGeometryRun :: "run \<Rightarrow> run" where
  "eraseGeometryRun (TextRun r) = TextRun r"
| "eraseGeometryRun (ImageRun i) = ImageRun (i\<lparr>i_transformation := \<lparr>t_width = 0, t_height = 0\<rparr>\<rparr>)"

definition eraseGeometryP :: "paragraphOpts \<Rightarrow> paragraphOpts" where
  "eraseGeometryP p = p\<lparr>p_children := map eraseGeometryRun (p_children p)\<rparr>"

definition eraseGeometryS :: "sectionOpts \<Rightarrow> sectionOpts" where
  "eraseGeometryS s = s\<lparr>so_size := \<lparr>pg_width = 0, pg_height = 0\<rparr>,
     so_margin := \<lparr>m_top = 0, m_right = 0, m_bottom = 0, m_left = 0\<rparr>,
     so_children := map eraseGeometryP (so_children s)\<rparr>"

definition eraseGeometry :: "document \<Rightarrow> document" where
  "eraseGeometry d = d\<lparr>d_sections := map eraseGeometryS (d_sections d)\<rparr>"

definition eraseSpacing :: "paragraphOpts \<Rightarrow> paragraphOpts" where
  "eraseSpacing p = p\<lparr>p_spacing := None\<rparr>"

definition eraseTitleSpacingS :: "sectionOpts \<Rightarrow> sectionOpts" where
  "eraseTitleSpacingS s = s\<lparr>so_children :=
     map eraseSpacing (take 5 (so_children s)) @ drop 5 (so_children s)\<rparr>"

definition eraseTitleSpacing :: "document \<Rightarrow> document" where
  "eraseTitleSpacing d = d\<lparr>d_sections := map eraseTitleSpacingS (d_sections d)\<rparr>"



subsection \<open>Concrete inputs\<close>

text \<open>The \<^verbatim>\<open>content\<close> object both scripts ship with.\<close>

definition content_script :: content where
  "content_script = \<lparr>title = ''ARTICLE TITLE HERE'',
     subtitle = ''One-line description of the article'',
     author = ''Skye Boyland'',
     sections = [\<lparr>heading = ''First section heading'',
       paragraphs = Some [[\<lparr>s_text = ''First paragraph content.'', s_bold = None,
         s_italics = None\<rparr>]],
       bullets = None, after = None, bullets2 = None, after2 = None\<rparr>]\<rparr>"

text \<open>
  A file system holding the logo (here the four bytes that open a PNG file), and one
  holding nothing.
\<close>

definition pngBytes :: buffer where
  "pngBytes = [137, 80, 78, 71]"

definition fs_logo :: filesystem where
  "fs_logo = (\<lambda>p. if p = LOGO_PATH then Some pngBytes else None)"

definition fs_empty :: filesystem where
  "fs_empty = (\<lambda>p. None)"




text \<open>A section with a bold span, bullets and after-paragraphs.\<close>

definition sec_example :: sec where
  "sec_example = \<lparr>heading = ''Section title'',
     paragraphs = Some [[\<lparr>s_text = ''Second paragraph with '', s_bold = None, s_italics = None\<rparr>,
       \<lparr>s_text = ''bold word'', s_bold = Some True, s_italics = None\<rparr>,
       \<lparr>s_text = '' in it.'', s_bold = None, s_italics = None\<rparr>]],
     bullets = Some [''Bullet one'', ''Bullet two''],
     after = Some [[\<lparr>s_text = ''Paragraph after the bullets.'', s_bold = None,
       s_italics = None\<rparr>]],
     bullets2 = None, after2 = None\<rparr>"

text \<open>Another content: the one section is \<open>sec_example\<close>.\<close>

definition content_example :: content where
  "content_example = content_script\<lparr>sections := [sec_example]\<rparr>"

subsection \<open>Views of a section and of a run's outcome\<close>

text \<open>
  The blocks of a section that \<^verbatim>\<open>bodyP\<close> builds (from \<^verbatim>\<open>paragraphs\<close>, \<^verbatim>\<open>after\<close>,
  \<^verbatim>\<open>after2\<close>) and those that \<^verbatim>\<open>bulletP\<close> builds (from \<^verbatim>\<open>bullets\<close>, \<^verbatim>\<open>bullets2\<close>).
\<close>

definition bodyBlocks :: "tokens \<Rightarrow> sec \<Rightarrow> paragraphOpts list" where
  "bodyBlocks T s = optBlocks (bodyP T) (paragraphs s) @ optBlocks (bodyP T) (after s) @
     optBlocks (bodyP T) (after2 s)"

definition bulletItems :: "tokens \<Rightarrow> sec \<Rightarrow> paragraphOpts list" where
  "bulletItems T s = optBlocks (bulletP T) (bullets s) @ optBlocks (bulletP T) (bullets2 s)"

text \<open>
  The text runs of the document a run rendered: those of the page header, those of the
  block sequence and the footer, and all of them. A run that aborted rendered none.
\<close>

definition renderedHeaderRuns :: "pstate \<times> error option \<Rightarrow> textRunOpts list" where
  "renderedHeaderRuns out = (case renderedDoc out of None \<Rightarrow> [] | Some d \<Rightarrow> headerRuns d)"

definition renderedContentRuns :: "pstate \<times> error option \<Rightarrow> textRunOpts list" where
  "renderedContentRuns out = (case renderedDoc out of None \<Rightarrow> [] | Some d \<Rightarrow> contentRuns d)"

definition renderedRuns :: "pstate \<times> error option \<Rightarrow> textRunOpts list" where
  "renderedRuns out = (case renderedDoc out of None \<Rightarrow> [] | Some d \<Rightarrow> documentRuns d)"

section \<open>Properties of the section builder\<close>

lemma forEach_push_eq: "forEach_push f xs parts = parts @ map f xs"
  unfolding forEach_push_def push_def
  by (induction xs arbitrary: parts) simp_all

lemma buildSection_eq: "buildSection T s = spec_sectionBlocks T s"
  by (simp add: buildSection_def spec_sectionBlocks_def optBlocks_def afterBlocks_def
      forEach_push_eq push_def split: option.split)

lemma pushSections_eq: "pushSections T secs ch = ch @ concat (map (buildSection T) secs)"
  unfolding pushSections_def by (induction secs arbitrary: ch) simp_all

lemma isSpacer_simps:
  "isSpacer (spacer (Some 60))" "\<not> isSpacer (bodyP T sp)" "\<not> isSpacer (bulletP T b)"
  "\<not> isSpacer (sectionHeading T h)"
  by (simp_all add: isSpacer_def spacer_def bodyP_def bulletP_def sectionHeading_def Paragraph_def)

lemma isHeading_simps:
  "\<not> isHeading (spacer a)" "\<not> isHeading (bodyP T sp)" "\<not> isHeading (bulletP T b)"
  "isHeading (sectionHeading T h)"
  by (simp_all add: isHeading_def spacer_def bodyP_def bulletP_def sectionHeading_def Paragraph_def)

lemma filter_none: "(\<And>x. \<not> P (f x)) \<Longrightarrow> filter P (map f xs) = []"
  by (induction xs) simp_all

lemma headings_count: "length (filter isHeading (buildSection T s)) = 1"
  by (simp add: buildSection_eq spec_sectionBlocks_def optBlocks_def afterBlocks_def
      isHeading_simps filter_none split: option.split)

lemma filter_concat_heading:
  "length (filter isHeading (concat (map (buildSection T) secs))) = length secs"
  by (induction secs) (simp_all add: headings_count)


text \<open>
  C5. A built section holds one spacer block for each of \<^verbatim>\<open>after\<close> and \<^verbatim>\<open>after2\<close> that
  is present, and none otherwise. The spacer stands between the blocks before it
  (paragraphs, bullets) and the after-paragraphs. A section with bullets and after gives
  heading, paragraphs if any, the bullet items, one spacer, the after-paragraphs; a section
  with bullets and no after gives heading, paragraphs if any, and the bullet items only.
\<close>

theorem spacer_iff_after:
  "length (filter isSpacer (buildSection T s)) =
     (if after s = None then 0 else 1) + (if after2 s = None then 0 else 1) \<and>
   buildSection T s = sectionHeading T (heading s) #
     optBlocks (bodyP T) (paragraphs s) @ optBlocks (bulletP T) (bullets s) @
     afterBlocks T (after s) @ optBlocks (bulletP T) (bullets2 s) @ afterBlocks T (after2 s) \<and>
   buildSection T \<lparr>heading = h, paragraphs = ps, bullets = Some bs, after = Some as,
       bullets2 = None, after2 = None\<rparr> =
     sectionHeading T h # optBlocks (bodyP T) ps @ map (bulletP T) bs @
       spacer (Some 60) # map (bodyP T) as \<and>
   buildSection T \<lparr>heading = h, paragraphs = ps, bullets = Some bs, after = None,
       bullets2 = None, after2 = None\<rparr> =
     sectionHeading T h # optBlocks (bodyP T) ps @ map (bulletP T) bs"
  by (simp add: buildSection_eq spec_sectionBlocks_def optBlocks_def afterBlocks_def
      isSpacer_simps filter_none split: option.split)

text \<open>
  C9, as the claim states it, fails: a bullet list item of a built section carries no
  \<^verbatim>\<open>widowControl\<close> key.
\<close>

theorem bullet_widowControl_counterexample:
  "bulletP tokens_A4 ''Bullet one'' \<in> set (buildSection tokens_A4 sec_example) \<and>
   p_widowControl (bulletP tokens_A4 ''Bullet one'') = None"
  by (simp add: buildSection_eq spec_sectionBlocks_def optBlocks_def afterBlocks_def
      sec_example_def bulletP_def Paragraph_def)

text \<open>
  C9, amended. Every paragraph built from a section's \<^verbatim>\<open>paragraphs\<close>, \<^verbatim>\<open>after\<close> or
  \<^verbatim>\<open>after2\<close> span lists is a block of the section marked \<^verbatim>\<open>widowControl: true\<close>; every
  bullet list item is a block of the section without the \<^verbatim>\<open>widowControl\<close> key.
\<close>

theorem body_paragraphs_widowControl:
  "(\<forall>p \<in> set (bodyBlocks T s). p \<in> set (buildSection T s) \<and> p_widowControl p = Some True) \<and>
   (\<forall>p \<in> set (bulletItems T s). p \<in> set (buildSection T s) \<and> p_widowControl p = None)"
  by (auto simp: bodyBlocks_def bulletItems_def buildSection_eq spec_sectionBlocks_def
      optBlocks_def afterBlocks_def bodyP_def bulletP_def Paragraph_def split: option.splits)

theorem body_paragraphs_widowControl_witness:
  "bodyBlocks tokens_A4 sec_example =
     [bodyP tokens_A4 [\<lparr>s_text = ''Second paragraph with '', s_bold = None, s_italics = None\<rparr>,
       \<lparr>s_text = ''bold word'', s_bold = Some True, s_italics = None\<rparr>,
       \<lparr>s_text = '' in it.'', s_bold = None, s_italics = None\<rparr>],
      bodyP tokens_A4 [\<lparr>s_text = ''Paragraph after the bullets.'', s_bold = None,
       s_italics = None\<rparr>]] \<and>
   p_widowControl (bodyP tokens_A4 [\<lparr>s_text = ''Paragraph after the bullets.'', s_bold = None,
       s_italics = None\<rparr>]) = Some True \<and>
   bodyP tokens_A4 [\<lparr>s_text = ''Paragraph after the bullets.'', s_bold = None,
       s_italics = None\<rparr>] \<in> set (buildSection tokens_A4 sec_example) \<and>
   bulletItems tokens_A4 sec_example =
     [bulletP tokens_A4 ''Bullet one'', bulletP tokens_A4 ''Bullet two''] \<and>
   p_widowControl (bulletP tokens_A4 ''Bullet two'') = None"
  using body_paragraphs_widowControl [of tokens_A4 sec_example]
  by (simp add: bodyBlocks_def bulletItems_def optBlocks_def sec_example_def)

text \<open>
  C10. Every body field of a section is optional for the builder: a section with none of
  \<^verbatim>\<open>paragraphs\<close>, \<^verbatim>\<open>bullets\<close>, \<^verbatim>\<open>after\<close>, \<^verbatim>\<open>bullets2\<close>, \<^verbatim>\<open>after2\<close> is built
  (the builder is total, no branch raises) into exactly one block, its heading block.
  This holds for the tokens of either script.
\<close>

theorem buildSection_heading_only:
  "buildSection T \<lparr>heading = h, paragraphs = None, bullets = None, after = None,
     bullets2 = None, after2 = None\<rparr> = [sectionHeading T h]"
  by (simp add: buildSection_def push_def)

section \<open>Properties of the scripts\<close>

lemma script_A4_ok:
  "fs LOGO_PATH = Some d \<Longrightarrow> script_A4 fs c s =
     (\<lparr>logoData = Some d,
       children = Some (titleBlock_A4 d c @ concat (map (buildSection tokens_A4) (sections c))),
       doc = Some (Document_A4
         (titleBlock_A4 d c @ concat (map (buildSection tokens_A4) (sections c))))\<rparr>, None)"
  by (simp add: script_A4_def readFileSync_def pushSections_eq Let_def)

lemma script_Mobile_ok:
  "fs LOGO_PATH = Some d \<Longrightarrow> script_Mobile fs c s =
     (\<lparr>logoData = Some d,
       children = Some (titleBlock_Mobile d c @
         concat (map (buildSection tokens_Mobile) (sections c))),
       doc = Some (Document_Mobile
         (titleBlock_Mobile d c @ concat (map (buildSection tokens_Mobile) (sections c))))\<rparr>,
      None)"
  by (simp add: script_Mobile_def readFileSync_def pushSections_eq Let_def)

lemma script_A4_fail:
  "fs LOGO_PATH = None \<Longrightarrow> script_A4 fs c s = (s, Some (ENOENT LOGO_PATH))"
  by (simp add: script_A4_def readFileSync_def)

lemma script_Mobile_fail:
  "fs LOGO_PATH = None \<Longrightarrow> script_Mobile fs c s = (s, Some (ENOENT LOGO_PATH))"
  by (simp add: script_Mobile_def readFileSync_def)

lemma titleBlock_no_heading:
  "\<not> isHeading (logoP_A4 d)" "\<not> isHeading (titleP_A4 c)" "\<not> isHeading (subtitleP_A4 c)"
  "\<not> isHeading ruleP_A4" "\<not> isHeading (authorP_A4 c)"
  "\<not> isHeading (logoP_Mobile d)" "\<not> isHeading (titleP_Mobile c)"
  "\<not> isHeading (subtitleP_Mobile c)" "\<not> isHeading ruleP_Mobile"
  "\<not> isHeading (authorP_Mobile c)"
  by (simp_all add: isHeading_def logoP_A4_def titleP_A4_def subtitleP_A4_def ruleP_A4_def
      authorP_A4_def logoP_Mobile_def titleP_Mobile_def subtitleP_Mobile_def ruleP_Mobile_def
      authorP_Mobile_def Paragraph_def)

lemma fs_logo_LOGO_PATH: "fs_logo LOGO_PATH = Some pngBytes"
  by (simp add: fs_logo_def)

text \<open>
  C1. When the logo is read, the block sequence either script renders for a content with
  N sections is the logo block, one title block, one subtitle block, one rule and one
  author line, followed by the blocks of each section in order: its heading block, then
  its paragraphs, bullets, spacer and after-paragraphs, second bullets, spacer and second
  after-paragraphs. The sequence holds exactly N heading blocks.
\<close>

theorem rendered_structure:
  "fs LOGO_PATH = Some d \<Longrightarrow>
     rendered (script_A4 fs c s) =
       Some ([logoP_A4 d, titleP_A4 c, subtitleP_A4 c, ruleP_A4, authorP_A4 c] @
             concat (map (spec_sectionBlocks tokens_A4) (sections c))) \<and>
     rendered (script_Mobile fs c s) =
       Some ([logoP_Mobile d, titleP_Mobile c, subtitleP_Mobile c, ruleP_Mobile,
              authorP_Mobile c] @
             concat (map (spec_sectionBlocks tokens_Mobile) (sections c))) \<and>
     map_option (\<lambda>bs. length (filter isHeading bs)) (rendered (script_A4 fs c s)) =
       Some (length (sections c)) \<and>
     map_option (\<lambda>bs. length (filter isHeading bs)) (rendered (script_Mobile fs c s)) =
       Some (length (sections c))"
  by (simp add: script_A4_ok script_Mobile_ok rendered_def titleBlock_A4_def
      titleBlock_Mobile_def filter_concat_heading titleBlock_no_heading
      buildSection_eq [abs_def, symmetric])

text \<open>On the content the scripts ship with: the five title-block paragraphs, one heading, one body paragraph.\<close>

theorem rendered_structure_witness:
  "fs_logo LOGO_PATH = Some pngBytes \<and>
   rendered (script_A4 fs_logo content_script initial) =
     Some [logoP_A4 pngBytes, titleP_A4 content_script, subtitleP_A4 content_script, ruleP_A4,
           authorP_A4 content_script,
           sectionHeading tokens_A4 ''First section heading'',
           bodyP tokens_A4 [\<lparr>s_text = ''First paragraph content.'', s_bold = None,
             s_italics = None\<rparr>]] \<and>
   rendered (script_Mobile fs_logo content_script initial) =
     Some [logoP_Mobile pngBytes, titleP_Mobile content_script, subtitleP_Mobile content_script,
           ruleP_Mobile, authorP_Mobile content_script,
           sectionHeading tokens_Mobile ''First section heading'',
           bodyP tokens_Mobile [\<lparr>s_text = ''First paragraph content.'', s_bold = None,
             s_italics = None\<rparr>]]"
  using rendered_structure [of fs_logo pngBytes content_script initial]
  by (simp add: fs_logo_LOGO_PATH content_script_def spec_sectionBlocks_def optBlocks_def
      afterBlocks_def)

text \<open>
  C6. For a content whose sections list is empty, the rendered block sequence is exactly
  the title block (logo, title, subtitle, rule, author line), with no section block.
\<close>

theorem empty_sections_title_block_only:
  "fs LOGO_PATH = Some d \<Longrightarrow> sections c = [] \<Longrightarrow>
     rendered (script_A4 fs c s) =
       Some [logoP_A4 d, titleP_A4 c, subtitleP_A4 c, ruleP_A4, authorP_A4 c] \<and>
     rendered (script_Mobile fs c s) =
       Some [logoP_Mobile d, titleP_Mobile c, subtitleP_Mobile c, ruleP_Mobile,
             authorP_Mobile c]"
  by (simp add: script_A4_ok script_Mobile_ok rendered_def titleBlock_A4_def
      titleBlock_Mobile_def)

theorem empty_sections_witness:
  "fs_logo LOGO_PATH = Some pngBytes \<and> sections (content_script\<lparr>sections := []\<rparr>) = [] \<and>
   rendered (script_A4 fs_logo (content_script\<lparr>sections := []\<rparr>) initial) =
     Some [logoP_A4 pngBytes, titleP_A4 (content_script\<lparr>sections := []\<rparr>),
           subtitleP_A4 (content_script\<lparr>sections := []\<rparr>), ruleP_A4,
           authorP_A4 (content_script\<lparr>sections := []\<rparr>)] \<and>
   rendered (script_Mobile fs_logo (content_script\<lparr>sections := []\<rparr>) initial) =
     Some [logoP_Mobile pngBytes, titleP_Mobile (content_script\<lparr>sections := []\<rparr>),
           subtitleP_Mobile (content_script\<lparr>sections := []\<rparr>), ruleP_Mobile,
           authorP_Mobile (content_script\<lparr>sections := []\<rparr>)]"
  using empty_sections_title_block_only [of fs_logo pngBytes
      "content_script\<lparr>sections := []\<rparr>" initial]
  by (simp add: fs_logo_LOGO_PATH)




text \<open>
  C8. If the logo cannot be read, the script ends with the exception of the read and the
  bindings untouched: started from the initial state, \<^verbatim>\<open>children\<close> and \<^verbatim>\<open>doc\<close> are
  still uninitialised, so no block has been produced.
\<close>

theorem logo_failure_aborts:
  "fs LOGO_PATH = None \<Longrightarrow>
     script_A4 fs c initial = (initial, Some (ENOENT LOGO_PATH)) \<and>
     children (fst (script_A4 fs c initial)) = None \<and>
     doc (fst (script_A4 fs c initial)) = None \<and>
     rendered (script_A4 fs c initial) = None \<and>
     script_Mobile fs c initial = (initial, Some (ENOENT LOGO_PATH)) \<and>
     children (fst (script_Mobile fs c initial)) = None \<and>
     doc (fst (script_Mobile fs c initial)) = None \<and>
     rendered (script_Mobile fs c initial) = None"
  by (simp add: script_A4_fail script_Mobile_fail rendered_def initial_def)

theorem logo_failure_witness:
  "fs_empty LOGO_PATH = None \<and>
   script_A4 fs_empty content_script initial = (initial, Some (ENOENT LOGO_PATH)) \<and>
   script_Mobile fs_empty content_script initial = (initial, Some (ENOENT LOGO_PATH))"
  using logo_failure_aborts [of fs_empty content_script]
  by (simp add: fs_empty_def)

section \<open>The logo's display height\<close>

text \<open>
  Any value within 2/5 of the exact product rounds to the same integer, so the rounding
  error of the double-precision division and multiplication (far below 1/1000) is
  immaterial.
\<close>

lemma Math_round_stable:
  "\<bar>x - of_int w * (466 / 2000)\<bar> \<le> 2 / 5 \<Longrightarrow> w = 180 \<or> w = 150 \<Longrightarrow>
   Math_round x = Math_round (of_int w * (466 / 2000))"
proof -
  assume a: "\<bar>x - of_int w * (466 / 2000)\<bar> \<le> 2 / 5" and w: "w = 180 \<or> w = 150"
  from w show ?thesis
  proof
    assume "w = 180"
    with a have "\<bar>x - 2097 / 50\<bar> \<le> 2 / 5" by simp
    then have "42 \<le> x + 1 / 2" "x + 1 / 2 < 43" by linarith+
    then have "\<lfloor>x + 1 / 2\<rfloor> = 42" by (simp add: floor_eq_iff)
    with \<open>w = 180\<close> show ?thesis by (simp add: Math_round_def)
  next
    assume "w = 150"
    with a have "\<bar>x - 699 / 20\<bar> \<le> 2 / 5" by simp
    then have "35 \<le> x + 1 / 2" "x + 1 / 2 < 36" by linarith+
    then have "\<lfloor>x + 1 / 2\<rfloor> = 35" by (simp add: floor_eq_iff)
    with \<open>w = 150\<close> show ?thesis by (simp add: Math_round_def)
  qed
qed

text \<open>
  C3. In both scripts the logo display height is the display width times 466/2000,
  rounded: 42 for the A4 width 180 and 35 for the mobile width 150, and these are the
  sizes the logo image run carries.
\<close>

theorem logo_display_height:
  "LOGO_DISPLAY_H_A4 = Math_round (180 * (466 / 2000)) \<and> LOGO_DISPLAY_H_A4 = 42 \<and>
   LOGO_DISPLAY_H_Mobile = Math_round (150 * (466 / 2000)) \<and> LOGO_DISPLAY_H_Mobile = 35 \<and>
   p_children (logoP_A4 d) = [ImageRun \<lparr>i_data = d,
      i_transformation = \<lparr>t_width = 180, t_height = 42\<rparr>, i_type = ''png''\<rparr>] \<and>
   p_children (logoP_Mobile d) = [ImageRun \<lparr>i_data = d,
      i_transformation = \<lparr>t_width = 150, t_height = 35\<rparr>, i_type = ''png''\<rparr>]"
  by (simp add: LOGO_DISPLAY_H_A4_def LOGO_DISPLAY_W_A4_def LOGO_ASPECT_A4_def
      LOGO_DISPLAY_H_Mobile_def LOGO_DISPLAY_W_Mobile_def LOGO_ASPECT_Mobile_def
      Math_round_def logoP_A4_def logoP_Mobile_def Paragraph_def)

section \<open>Fonts of the text runs\<close>

lemma paragraphRuns_simps:
  "paragraphRuns [] = []" "paragraphRuns (p # ps) = textRunsOf (p_children p) @ paragraphRuns ps"
  "paragraphRuns (ps @ qs) = paragraphRuns ps @ paragraphRuns qs"
  by (simp_all add: paragraphRuns_def)

lemma paragraphRuns_concat: "paragraphRuns (concat pss) = concat (map paragraphRuns pss)"
  by (induction pss) (simp_all add: paragraphRuns_simps)

lemma makeRuns_font:
  "FONTS_heading (FONTS T) \<noteq> FONTS_body (FONTS T) \<Longrightarrow>
   r \<in> set (textRunsOf (makeRuns T sp)) \<Longrightarrow> fontFollowsBold T r"
  by (induction sp)
     (auto simp: makeRuns_def makeRun_def fontFollowsBold_def textRun_def split: if_splits)

lemma bodyP_font:
  "FONTS_heading (FONTS T) \<noteq> FONTS_body (FONTS T) \<Longrightarrow>
   r \<in> set (paragraphRuns (map (bodyP T) ps)) \<Longrightarrow> fontFollowsBold T r"
  by (induction ps) (auto simp: paragraphRuns_simps bodyP_def Paragraph_def dest: makeRuns_font)

lemma bulletP_font:
  "FONTS_heading (FONTS T) \<noteq> FONTS_body (FONTS T) \<Longrightarrow>
   r \<in> set (paragraphRuns (map (bulletP T) bs)) \<Longrightarrow> fontFollowsBold T r"
  by (induction bs)
     (auto simp: paragraphRuns_simps bulletP_def Paragraph_def fontFollowsBold_def textRun_def)

lemma buildSection_font:
  assumes "FONTS_heading (FONTS T) \<noteq> FONTS_body (FONTS T)"
    and "r \<in> set (paragraphRuns (buildSection T s))"
  shows "fontFollowsBold T r"
proof -
  have h: "fontFollowsBold T r" if "r \<in> set (paragraphRuns [sectionHeading T (heading s)])"
    using that assms(1)
    by (auto simp: paragraphRuns_simps sectionHeading_def Paragraph_def fontFollowsBold_def
        textRun_def)
  have sp: "paragraphRuns [spacer a] = []" for a
    by (simp add: paragraphRuns_simps spacer_def Paragraph_def Let_def)
  from assms(2) show ?thesis
    using h bodyP_font [OF assms(1)] bulletP_font [OF assms(1)] sp [of "Some 60"]
    by (auto simp: buildSection_eq spec_sectionBlocks_def optBlocks_def afterBlocks_def
        paragraphRuns_simps split: option.splits)
qed

lemma sections_font:
  "FONTS_heading (FONTS T) \<noteq> FONTS_body (FONTS T) \<Longrightarrow>
   r \<in> set (paragraphRuns (concat (map (buildSection T) secs))) \<Longrightarrow> fontFollowsBold T r"
  by (induction secs) (auto simp: paragraphRuns_simps dest: buildSection_font)

lemma fonts_distinct:
  "FONTS_heading (FONTS tokens_A4) \<noteq> FONTS_body (FONTS tokens_A4)"
  "FONTS_heading (FONTS tokens_Mobile) \<noteq> FONTS_body (FONTS tokens_Mobile)"
  by (simp_all add: tokens_A4_def tokens_Mobile_def FONTS_A4_def FONTS_Mobile_def)

lemma titleBlock_A4_font:
  "r \<in> set (paragraphRuns (titleBlock_A4 d c)) \<Longrightarrow> fontFollowsBold tokens_A4 r"
  by (auto simp: paragraphRuns_simps titleBlock_A4_def logoP_A4_def titleP_A4_def
      subtitleP_A4_def ruleP_A4_def authorP_A4_def Paragraph_def fontFollowsBold_def
      textRun_def tokens_A4_def FONTS_A4_def)

lemma titleBlock_Mobile_font:
  "r \<in> set (paragraphRuns (titleBlock_Mobile d c)) \<Longrightarrow> fontFollowsBold tokens_Mobile r"
  by (auto simp: paragraphRuns_simps titleBlock_Mobile_def logoP_Mobile_def titleP_Mobile_def
      subtitleP_Mobile_def ruleP_Mobile_def authorP_Mobile_def Paragraph_def fontFollowsBold_def
      textRun_def tokens_Mobile_def FONTS_Mobile_def)

lemma footer_font:
  "FONTS_heading (FONTS T) \<noteq> FONTS_body (FONTS T) \<Longrightarrow> fontFollowsBold T (footerRun T)"
  by (auto simp: footerRun_def fontFollowsBold_def textRun_def)

lemma renderedContentRuns_A4:
  "fs LOGO_PATH = Some d \<Longrightarrow> renderedContentRuns (script_A4 fs c s) =
     paragraphRuns (titleBlock_A4 d c) @
     paragraphRuns (concat (map (buildSection tokens_A4) (sections c))) @ [footerRun tokens_A4]"
  by (simp add: renderedContentRuns_def renderedDoc_def script_A4_ok Document_A4_def
      contentRuns_def paragraphRuns_simps footerP_def Paragraph_def)

lemma renderedContentRuns_Mobile:
  "fs LOGO_PATH = Some d \<Longrightarrow> renderedContentRuns (script_Mobile fs c s) =
     paragraphRuns (titleBlock_Mobile d c) @
     paragraphRuns (concat (map (buildSection tokens_Mobile) (sections c))) @
     [footerRun tokens_Mobile]"
  by (simp add: renderedContentRuns_def renderedDoc_def script_Mobile_ok Document_Mobile_def
      contentRuns_def paragraphRuns_simps footerP_def Paragraph_def)

lemma renderedHeaderRuns_ok:
  "fs LOGO_PATH = Some d \<Longrightarrow> renderedHeaderRuns (script_A4 fs c s) = [headerRun tokens_A4]"
  "fs LOGO_PATH = Some d \<Longrightarrow>
     renderedHeaderRuns (script_Mobile fs c s) = [headerRun tokens_Mobile]"
  by (simp_all add: renderedHeaderRuns_def renderedDoc_def script_A4_ok script_Mobile_ok
      Document_A4_def Document_Mobile_def headerRuns_def paragraphRuns_simps headerP_def
      Paragraph_def)

lemma rendered_runs_fail:
  "fs LOGO_PATH = None \<Longrightarrow> renderedContentRuns (script_A4 fs c s) = []"
  "fs LOGO_PATH = None \<Longrightarrow> renderedContentRuns (script_Mobile fs c s) = []"
  "fs LOGO_PATH = None \<Longrightarrow> renderedHeaderRuns (script_A4 fs c s) = []"
  "fs LOGO_PATH = None \<Longrightarrow> renderedHeaderRuns (script_Mobile fs c s) = []"
  by (simp_all add: renderedContentRuns_def renderedHeaderRuns_def renderedDoc_def
      script_A4_fail script_Mobile_fail)

lemma content_runs_font:
  "r \<in> set (renderedContentRuns (script_A4 fs c s)) \<Longrightarrow> fontFollowsBold tokens_A4 r"
  "r' \<in> set (renderedContentRuns (script_Mobile fs c s)) \<Longrightarrow> fontFollowsBold tokens_Mobile r'"
proof -
  show "fontFollowsBold tokens_A4 r" if "r \<in> set (renderedContentRuns (script_A4 fs c s))"
  proof (cases "fs LOGO_PATH")
    case None
    with that show ?thesis by (simp add: rendered_runs_fail)
  next
    case (Some d)
    with that show ?thesis
      using titleBlock_A4_font sections_font [OF fonts_distinct(1)] footer_font [OF fonts_distinct(1)]
      by (auto simp: renderedContentRuns_A4)
  qed
  show "fontFollowsBold tokens_Mobile r'"
    if "r' \<in> set (renderedContentRuns (script_Mobile fs c s))"
  proof (cases "fs LOGO_PATH")
    case None
    with that show ?thesis by (simp add: rendered_runs_fail)
  next
    case (Some d)
    with that show ?thesis
      using titleBlock_Mobile_font sections_font [OF fonts_distinct(2)]
        footer_font [OF fonts_distinct(2)]
      by (auto simp: renderedContentRuns_Mobile)
  qed
qed

lemma header_runs_eq:
  "r \<in> set (renderedHeaderRuns (script_A4 fs c s)) \<Longrightarrow> r = headerRun tokens_A4"
  "r' \<in> set (renderedHeaderRuns (script_Mobile fs c s)) \<Longrightarrow> r' = headerRun tokens_Mobile"
  by (cases "fs LOGO_PATH"; simp add: rendered_runs_fail renderedHeaderRuns_ok)+

text \<open>
  C2, as the claim states it, fails at the page header: its run \<^verbatim>\<open>SKYETRAIN\<close> is in the
  rendered document, uses the heading font and is not bold.
\<close>

theorem header_run_counterexample:
  "headerRun tokens_A4 \<in> set (renderedRuns (script_A4 fs_logo content_script initial)) \<and>
   r_font (headerRun tokens_A4) = Some (FONTS_heading (FONTS tokens_A4)) \<and>
   r_bold (headerRun tokens_A4) \<noteq> Some True \<and>
   \<not> fontFollowsBold tokens_A4 (headerRun tokens_A4)"
  by (simp add: renderedRuns_def renderedDoc_def script_A4_ok [of fs_logo pngBytes] fs_logo_LOGO_PATH
      Document_A4_def documentRuns_def headerRuns_def paragraphRuns_simps headerP_def
      Paragraph_def headerRun_def textRun_def fontFollowsBold_def)

text \<open>
  C2, amended. Every text run of the block sequence (title, subtitle, author, headings,
  body spans, bullets) and the footer run uses the heading font exactly when its bold flag
  is true, and the body font otherwise. The only other text run of the document is the
  header run, which uses the heading font and has no bold flag.
\<close>

theorem font_follows_bold:
  "(\<forall>r \<in> set (renderedContentRuns (script_A4 fs c s)). fontFollowsBold tokens_A4 r) \<and>
   (\<forall>r \<in> set (renderedContentRuns (script_Mobile fs c s)). fontFollowsBold tokens_Mobile r) \<and>
   (\<forall>r \<in> set (renderedHeaderRuns (script_A4 fs c s)). r = headerRun tokens_A4) \<and>
   (\<forall>r \<in> set (renderedHeaderRuns (script_Mobile fs c s)). r = headerRun tokens_Mobile) \<and>
   renderedRuns (script_A4 fs c s) =
     renderedHeaderRuns (script_A4 fs c s) @ renderedContentRuns (script_A4 fs c s) \<and>
   renderedRuns (script_Mobile fs c s) =
     renderedHeaderRuns (script_Mobile fs c s) @ renderedContentRuns (script_Mobile fs c s) \<and>
   r_font (headerRun tokens_A4) = Some (FONTS_heading (FONTS tokens_A4)) \<and>
   r_bold (headerRun tokens_A4) = None \<and>
   r_font (headerRun tokens_Mobile) = Some (FONTS_heading (FONTS tokens_Mobile)) \<and>
   r_bold (headerRun tokens_Mobile) = None"
  using content_runs_font header_runs_eq
  by (auto simp: headerRun_def textRun_def renderedRuns_def renderedHeaderRuns_def
      renderedContentRuns_def documentRuns_def split: option.splits)


theorem font_follows_bold_witness:
  "length (renderedContentRuns (script_A4 fs_logo content_example initial)) = 11 \<and>
   list_all (fontFollowsBold tokens_A4)
     (renderedContentRuns (script_A4 fs_logo content_example initial)) \<and>
   length (renderedContentRuns (script_Mobile fs_logo content_example initial)) = 11 \<and>
   list_all (fontFollowsBold tokens_Mobile)
     (renderedContentRuns (script_Mobile fs_logo content_example initial)) \<and>
   renderedHeaderRuns (script_A4 fs_logo content_example initial) = [headerRun tokens_A4] \<and>
   renderedHeaderRuns (script_Mobile fs_logo content_example initial) =
     [headerRun tokens_Mobile]"
  using font_follows_bold [of fs_logo content_example initial]
  by (simp add: list_all_iff renderedHeaderRuns_ok [of fs_logo pngBytes] fs_logo_LOGO_PATH
      renderedContentRuns_A4 [of fs_logo pngBytes] renderedContentRuns_Mobile [of fs_logo pngBytes]
      content_example_def sec_example_def paragraphRuns_simps buildSection_eq
      spec_sectionBlocks_def optBlocks_def afterBlocks_def titleBlock_A4_def
      titleBlock_Mobile_def logoP_A4_def titleP_A4_def subtitleP_A4_def ruleP_A4_def
      authorP_A4_def logoP_Mobile_def titleP_Mobile_def subtitleP_Mobile_def ruleP_Mobile_def
      authorP_Mobile_def sectionHeading_def bodyP_def bulletP_def spacer_def makeRuns_def
      makeRun_def Paragraph_def)

section \<open>The two scripts compared\<close>

lemma tokens_agree:
  "PALETTE_A4 = PALETTE_Mobile" "FONTS_A4 = FONTS_Mobile" "SIZES_A4 = SIZES_Mobile"
  "SPACING_Mobile = SPACING_A4\<lparr>SPACING_titleBlockEnd := 400\<rparr>"
  by (simp_all add: PALETTE_A4_def PALETTE_Mobile_def FONTS_A4_def FONTS_Mobile_def
      SIZES_A4_def SIZES_Mobile_def SPACING_A4_def SPACING_Mobile_def)

lemma makeRun_tokens: "makeRun tokens_Mobile = makeRun tokens_A4"
  by (rule ext) (simp add: makeRun_def tokens_A4_def tokens_Mobile_def tokens_agree)

lemma builders_tokens:
  "bodyP tokens_Mobile = bodyP tokens_A4" "bulletP tokens_Mobile = bulletP tokens_A4"
  "sectionHeading tokens_Mobile = sectionHeading tokens_A4"
  by (simp_all add: fun_eq_iff bodyP_def bulletP_def sectionHeading_def makeRuns_def
      makeRun_tokens)
     (simp_all add: tokens_A4_def tokens_Mobile_def tokens_agree SPACING_A4_def)

lemma buildSection_tokens: "buildSection tokens_Mobile = buildSection tokens_A4"
  by (rule ext)
     (simp add: buildSection_eq spec_sectionBlocks_def optBlocks_def afterBlocks_def
       builders_tokens split: option.split)

lemma header_footer_tokens:
  "headerP tokens_Mobile = headerP tokens_A4" "footerP tokens_Mobile = footerP tokens_A4"
  "defaultStyle tokens_Mobile = defaultStyle tokens_A4"
  by (simp_all add: headerP_def footerP_def headerRun_def footerRun_def defaultStyle_def
      tokens_A4_def tokens_Mobile_def tokens_agree)

text \<open>
  C4, as the claim states it, fails: the spacing token \<^verbatim>\<open>titleBlockEnd\<close> is 480 in the
  A4 script and 400 in the mobile one, and the two documents for the shipped content still
  differ when page size, margins and logo display size are disregarded.
\<close>

theorem presets_differ_counterexample:
  "SPACING_titleBlockEnd SPACING_A4 \<noteq> SPACING_titleBlockEnd SPACING_Mobile \<and>
   map_option eraseGeometry (renderedDoc (script_A4 fs_logo content_script initial)) \<noteq>
   map_option eraseGeometry (renderedDoc (script_Mobile fs_logo content_script initial))"
  by (simp add: SPACING_A4_def SPACING_Mobile_def renderedDoc_def
      script_A4_ok [of fs_logo pngBytes] script_Mobile_ok [of fs_logo pngBytes]
      fs_logo_LOGO_PATH eraseGeometry_def eraseGeometryS_def eraseGeometryP_def
      Document_A4_def Document_Mobile_def titleBlock_A4_def titleBlock_Mobile_def
      logoP_A4_def logoP_Mobile_def Paragraph_def noSpacing_def)

text \<open>
  C4, amended. The two scripts have the same palette, fonts and sizes, and the same
  spacing tokens but \<^verbatim>\<open>titleBlockEnd\<close>. The documents they render from the same content
  are the same once page size, margins, the logo display size and the spacing of the five
  title-block paragraphs are disregarded.
\<close>

theorem presets_differ_only_in_geometry_and_title_spacing:
  "PALETTE_A4 = PALETTE_Mobile \<and> FONTS_A4 = FONTS_Mobile \<and> SIZES_A4 = SIZES_Mobile \<and>
   SPACING_Mobile = SPACING_A4\<lparr>SPACING_titleBlockEnd := 400\<rparr> \<and>
   map_option (eraseTitleSpacing \<circ> eraseGeometry) (renderedDoc (script_Mobile fs c s)) =
   map_option (eraseTitleSpacing \<circ> eraseGeometry) (renderedDoc (script_A4 fs c s))"
proof (cases "fs LOGO_PATH")
  case None
  then show ?thesis
    by (simp add: tokens_agree renderedDoc_def script_A4_fail script_Mobile_fail)
next
  case (Some d)
  have t: "map eraseSpacing (map eraseGeometryP (titleBlock_Mobile d c)) =
           map eraseSpacing (map eraseGeometryP (titleBlock_A4 d c))"
    by (simp add: titleBlock_A4_def titleBlock_Mobile_def eraseSpacing_def eraseGeometryP_def
      logoP_A4_def titleP_A4_def subtitleP_A4_def ruleP_A4_def
      authorP_A4_def logoP_Mobile_def titleP_Mobile_def subtitleP_Mobile_def ruleP_Mobile_def
      authorP_Mobile_def Paragraph_def tokens_agree)
  have l: "length (titleBlock_Mobile d c) = 5" "length (titleBlock_A4 d c) = 5"
    by (simp_all add: titleBlock_A4_def titleBlock_Mobile_def)
  from Some show ?thesis
    using t l
    by (simp add: tokens_agree renderedDoc_def script_A4_ok script_Mobile_ok
        eraseGeometry_def eraseGeometryS_def eraseTitleSpacing_def eraseTitleSpacingS_def
        Document_A4_def Document_Mobile_def header_footer_tokens buildSection_tokens
        take_map drop_map)
qed


end
